theory Spec2Isabelle
  imports Complex_Main "HOL-Library.AList" "HOL-Library.Sublist"
begin

section \<open>The trading model of \<^verbatim>\<open>forex.py\<close>\<close>

text \<open>
  The development embeds the class \<^verbatim>\<open>TradingModel\<close> of \<^verbatim>\<open>src/forex.py\<close>:
  its constructor and its three methods \<^verbatim>\<open>fetch_data\<close>, \<^verbatim>\<open>generate_signal\<close> and
  \<^verbatim>\<open>calculate_lot_size\<close>. Every method takes the object and returns its outcome
  together with the object as the method leaves it, so that assignments to
  \<^verbatim>\<open>self.data\<close> are visible, also on the paths that raise.

  Conventions of the embedding:
  \<^item> A Python float is the real number it denotes, or \<open>NaN\<close>. Rounding error of binary
    floating point and the infinities are outside the model.
  \<^item> A raised exception is an \<open>Inl\<close> value. Exceptions of the external libraries are
    caught by \<^verbatim>\<open>fetch_data\<close> and only formatted with \<^verbatim>\<open>str\<close>, so they are
    represented by that string.
  \<^item> The price provider (\<^verbatim>\<open>yf.download\<close>) and the three indicators of the
    \<^verbatim>\<open>ta\<close> library are not part of the program; they are parameters of \<open>fetch_data\<close>.
\<close>

subsection \<open>Floats with NaN\<close>

datatype pyfloat = Fl real | NaN

fun flt :: "pyfloat \<Rightarrow> pyfloat \<Rightarrow> bool" where
  "flt (Fl a) (Fl b) = (a < b)"
| "flt _ _ = False"

definition fgt :: "pyfloat \<Rightarrow> pyfloat \<Rightarrow> bool" where
  "fgt a b = flt b a"

fun fadd :: "pyfloat \<Rightarrow> pyfloat \<Rightarrow> pyfloat" where
  "fadd (Fl a) (Fl b) = Fl (a + b)"
| "fadd _ _ = NaN"

fun fsub :: "pyfloat \<Rightarrow> pyfloat \<Rightarrow> pyfloat" where
  "fsub (Fl a) (Fl b) = Fl (a - b)"
| "fsub _ _ = NaN"

text \<open>
  Python's \<^verbatim>\<open>round(x, n)\<close> on a float rounds to the nearest multiple of \<open>10\<^sup>-\<^sup>n\<close>,
  a tie going to the even neighbour.
\<close>

definition round_half_even :: "real \<Rightarrow> int" where
  "round_half_even y =
     (let f = \<lfloor>y\<rfloor>; d = y - of_int f
      in if d < 1 / 2 then f
         else if 1 / 2 < d then f + 1
         else if even f then f else f + 1)"

definition py_round :: "real \<Rightarrow> nat \<Rightarrow> real" where
  "py_round x n = of_int (round_half_even (x * 10 ^ n)) / 10 ^ n"

subsection \<open>Exceptions\<close>

datatype error =
    ValueError string
  | KeyError string
  | IndexError
  | ZeroDivisionError

text \<open>\<^verbatim>\<open>str(e)\<close> of a \<^verbatim>\<open>KeyError\<close> is the \<^verbatim>\<open>repr\<close> of the key, in single quotes.\<close>

definition str_KeyError :: "string \<Rightarrow> string" where
  "str_KeyError k = [CHR 0x27] @ k @ [CHR 0x27]"

subsection \<open>Data frames\<close>

text \<open>
  A data frame is the list of its rows in index order. A row carries its index label
  (the timestamp of the bar) and its cells by column name; a missing value is \<open>NaN\<close>.
\<close>

record row =
  timestamp :: int
  cells :: "(string \<times> pyfloat) list"

type_synonym DataFrame = "row list"

definition df_columns :: "DataFrame \<Rightarrow> string list" where
  "df_columns df = (case df of [] \<Rightarrow> [] | r # _ \<Rightarrow> map fst (cells r))"

text \<open>\<^verbatim>\<open>df.empty\<close>: one of the two axes has length zero.\<close>

definition df_empty :: "DataFrame \<Rightarrow> bool" where
  "df_empty df = (df = [] \<or> df_columns df = [])"

text \<open>\<^verbatim>\<open>row[c]\<close> on one row; a column the row does not carry is a \<^verbatim>\<open>KeyError\<close>.\<close>

definition row_getitem :: "row \<Rightarrow> string \<Rightarrow> error + pyfloat" where
  "row_getitem r c =
     (case map_of (cells r) c of None \<Rightarrow> Inl (KeyError c) | Some v \<Rightarrow> Inr v)"

text \<open>\<^verbatim>\<open>df[c]\<close>: the column as a series; the frame has the column when every row carries it.\<close>

definition df_getitem :: "DataFrame \<Rightarrow> string \<Rightarrow> error + pyfloat list" where
  "df_getitem df c =
     (if list_all (\<lambda>r. map_of (cells r) c \<noteq> None) df
      then Inr (map (\<lambda>r. case map_of (cells r) c of Some v \<Rightarrow> v | None \<Rightarrow> NaN) df)
      else Inl (KeyError c))"

text \<open>
  \<^verbatim>\<open>Series.squeeze()\<close>: a series of exactly one element becomes a scalar, any other
  series is returned as it is.
\<close>

datatype squeezed = Scalar pyfloat | Series "pyfloat list"

definition squeeze :: "pyfloat list \<Rightarrow> squeezed" where
  "squeeze xs = (case xs of [x] \<Rightarrow> Scalar x | _ \<Rightarrow> Series xs)"

text \<open>
  \<^verbatim>\<open>df[c] = s\<close> for a series \<open>s\<close> over the index of \<open>df\<close>: the values are aligned
  with the rows, a row that \<open>s\<close> has no value for gets \<open>NaN\<close>. An existing column is
  overwritten, a new one is appended.
\<close>

fun df_setitem :: "string \<Rightarrow> pyfloat list \<Rightarrow> DataFrame \<Rightarrow> DataFrame" where
  "df_setitem c vs [] = []"
| "df_setitem c [] (r # df) =
     r\<lparr>cells := AList.update c NaN (cells r)\<rparr> # df_setitem c [] df"
| "df_setitem c (v # vs) (r # df) =
     r\<lparr>cells := AList.update c v (cells r)\<rparr> # df_setitem c vs df"

text \<open>\<^verbatim>\<open>df.dropna()\<close>: the rows without any missing cell, in their order.\<close>

definition row_complete :: "row \<Rightarrow> bool" where
  "row_complete r = list_all (\<lambda>(c, v). v \<noteq> NaN) (cells r)"

definition dropna :: "DataFrame \<Rightarrow> DataFrame" where
  "dropna df = filter row_complete df"

text \<open>\<^verbatim>\<open>df.iloc[-1]\<close>: the last row; an \<^verbatim>\<open>IndexError\<close> on a frame without rows.\<close>

definition iloc_last :: "DataFrame \<Rightarrow> error + row" where
  "iloc_last df = (if df = [] then Inl IndexError else Inr (last df))"

subsection \<open>The model object\<close>

record TradingModel =
  currency_pair :: string
  account_balance :: real
  risk_percent :: real
  stop_loss_pips :: int
  pip_value :: real
  data :: "DataFrame option"

definition init :: "string \<Rightarrow> real \<Rightarrow> real \<Rightarrow> int \<Rightarrow> real \<Rightarrow> TradingModel" where
  "init cp ab rp slp pv =
     \<lparr>currency_pair = cp, account_balance = ab, risk_percent = rp,
      stop_loss_pips = slp, pip_value = pv, data = None\<rparr>"

subsection \<open>\<^verbatim>\<open>fetch_data\<close>\<close>

type_synonym provider = "string \<Rightarrow> string \<Rightarrow> string \<Rightarrow> string + DataFrame"
  \<comment> \<open>ticker, period, interval; \<open>Inl\<close> is \<^verbatim>\<open>str\<close> of the exception raised\<close>

type_synonym indicator = "squeezed \<Rightarrow> nat \<Rightarrow> string + pyfloat list"
  \<comment> \<open>close prices, window; \<open>Inl\<close> is \<^verbatim>\<open>str\<close> of the exception raised\<close>

definition ticker_map :: "(string \<times> string) list" where
  "ticker_map =
     [(''XAUUSD'', ''GC=F''),
      (''EURUSD'', ''EURUSD=X''),
      (''GBPUSD'', ''GBPUSD=X''),
      (''USDJPY'', ''JPY=X'')]"

definition ticker_of :: "string \<Rightarrow> string" where
  "ticker_of cp = (case map_of ticker_map cp of Some t \<Rightarrow> t | None \<Rightarrow> cp)"

definition no_data_msg :: string where
  "no_data_msg = ''No data fetched. Please check the currency pair or network connection.''"

text \<open>The handler of the \<^verbatim>\<open>try\<close> block: \<^verbatim>\<open>raise ValueError(f"Error fetching data: {e}")\<close>.\<close>

definition fetch_error :: "string \<Rightarrow> error" where
  "fetch_error e = ValueError (''Error fetching data: '' @ e)"

definition fetch_data ::
  "provider \<Rightarrow> indicator \<Rightarrow> indicator \<Rightarrow> indicator \<Rightarrow> string \<Rightarrow> string \<Rightarrow>
   TradingModel \<Rightarrow> (error + unit) \<times> TradingModel" where
  "fetch_data download sma_indicator ema_indicator rsi_indicator interval period m =
     (let ticker = ticker_of (currency_pair m) in
      case download ticker period interval of
        Inl e \<Rightarrow> (Inl (fetch_error e), m)
      | Inr df \<Rightarrow>
          let m0 = m\<lparr>data := Some df\<rparr> in
          if df_empty df then (Inl (fetch_error no_data_msg), m0)
          else
            (case df_getitem df ''Close'' of
               Inl _ \<Rightarrow> (Inl (fetch_error (str_KeyError ''Close'')), m0)
             | Inr close \<Rightarrow>
                 let close_prices = squeeze close in
                 (case sma_indicator close_prices 14 of
                    Inl e \<Rightarrow> (Inl (fetch_error e), m0)
                  | Inr sma \<Rightarrow>
                      let df1 = df_setitem ''SMA'' sma df; m1 = m\<lparr>data := Some df1\<rparr> in
                      (case ema_indicator close_prices 14 of
                         Inl e \<Rightarrow> (Inl (fetch_error e), m1)
                       | Inr ema \<Rightarrow>
                           let df2 = df_setitem ''EMA'' ema df1; m2 = m\<lparr>data := Some df2\<rparr> in
                           (case rsi_indicator close_prices 14 of
                              Inl e \<Rightarrow> (Inl (fetch_error e), m2)
                            | Inr rsi \<Rightarrow>
                                let df3 = df_setitem ''RSI'' rsi df2
                                in (Inr (), m\<lparr>data := Some (dropna df3)\<rparr>))))))"

subsection \<open>\<^verbatim>\<open>generate_signal\<close>\<close>

type_synonym signal = "string \<times> pyfloat \<times> pyfloat option \<times> pyfloat option"
  \<comment> \<open>action, entry price, take profit, stop loss; \<open>None\<close> is Python's \<^verbatim>\<open>None\<close>\<close>

definition not_ready_msg :: string where
  "not_ready_msg = ''Data not loaded or insufficient data for generating signals.''"

definition generate_signal :: "TradingModel \<Rightarrow> (error + signal) \<times> TradingModel" where
  "generate_signal m =
     (case data m of
        None \<Rightarrow> (Inl (ValueError not_ready_msg), m)
      | Some df \<Rightarrow>
          if df_empty df then (Inl (ValueError not_ready_msg), m)
          else
            (case iloc_last df of
               Inl e \<Rightarrow> (Inl e, m)
             | Inr last_row \<Rightarrow>
                 (case row_getitem last_row ''RSI'' of
                    Inl e \<Rightarrow> (Inl e, m)
                  | Inr rsi \<Rightarrow>
                      (case row_getitem last_row ''Close'' of
                         Inl e \<Rightarrow> (Inl e, m)
                       | Inr close \<Rightarrow>
                           (case row_getitem last_row ''SMA'' of
                              Inl e \<Rightarrow> (Inl e, m)
                            | Inr sma \<Rightarrow>
                                if flt rsi (Fl 30) \<and> fgt close sma then
                                  let take_profit =
                                        fadd close (Fl (of_int (stop_loss_pips m) * pip_value m));
                                      stop_loss =
                                        fsub close (Fl (of_int (stop_loss_pips m) * pip_value m))
                                  in (Inr (''Buy'', close, Some take_profit, Some stop_loss), m)
                                else if fgt rsi (Fl 70) \<and> flt close sma then
                                  let take_profit =
                                        fsub close (Fl (of_int (stop_loss_pips m) * pip_value m));
                                      stop_loss =
                                        fadd close (Fl (of_int (stop_loss_pips m) * pip_value m))
                                  in (Inr (''Sell'', close, Some take_profit, Some stop_loss), m)
                                else (Inr (''Hold'', close, None, None), m))))))"

subsection \<open>\<^verbatim>\<open>calculate_lot_size\<close>\<close>

definition calculate_lot_size :: "TradingModel \<Rightarrow> (error + real) \<times> TradingModel" where
  "calculate_lot_size m =
     (let risk_amount = account_balance m * (risk_percent m / 100);
          denom = of_int (stop_loss_pips m) * pip_value m
      in if denom = 0 then (Inl ZeroDivisionError, m)
         else (Inr (py_round (risk_amount / denom) 2), m))"

subsection \<open>The configuration and sample objects\<close>

text \<open>
  The five fields set by the constructor from the user's input; \<^verbatim>\<open>data\<close> is the sixth
  field of the object and the only one that \<^verbatim>\<open>fetch_data\<close> assigns.
\<close>

definition params :: "TradingModel \<Rightarrow> string \<times> real \<times> real \<times> int \<times> real" where
  "params m = (currency_pair m, account_balance m, risk_percent m, stop_loss_pips m, pip_value m)"

text \<open>
  Two loaded frames whose latest row carries the given RSI, Close and SMA values. They
  differ in everything else: the number of rows, the earlier rows, the timestamps and the
  EMA of the latest row.
\<close>

definition example_frame :: "real \<Rightarrow> real \<Rightarrow> real \<Rightarrow> DataFrame" where
  "example_frame rsi close sma =
     [\<lparr>timestamp = 0, cells = [(''Close'', Fl 1), (''SMA'', Fl 1), (''EMA'', Fl 1), (''RSI'', Fl 50)]\<rparr>,
      \<lparr>timestamp = 1, cells = [(''Close'', Fl close), (''SMA'', Fl sma), (''EMA'', Fl 1), (''RSI'', Fl rsi)]\<rparr>]"

definition other_history :: "real \<Rightarrow> real \<Rightarrow> real \<Rightarrow> DataFrame" where
  "other_history rsi close sma =
     [\<lparr>timestamp = 5, cells = [(''Close'', Fl 200), (''SMA'', Fl 150), (''EMA'', Fl 160), (''RSI'', Fl 80)]\<rparr>,
      \<lparr>timestamp = 6, cells = [(''Close'', Fl 90), (''SMA'', Fl 150), (''EMA'', Fl 140), (''RSI'', Fl 20)]\<rparr>,
      \<lparr>timestamp = 7, cells = [(''Close'', Fl close), (''SMA'', Fl sma), (''EMA'', Fl 3), (''RSI'', Fl rsi)]\<rparr>]"

text \<open>The object that the application builds from its default inputs, with a given frame.\<close>

definition example_model :: "DataFrame option \<Rightarrow> TradingModel" where
  "example_model d = (init ''EURUSD'' 1000 1 50 10)\<lparr>data := d\<rparr>"

subsection \<open>The contract of the indicators and sample series\<close>




text \<open>
  Seventeen daily bars at the constant price 1, once complete and once with the opening
  price of the bar at timestamp 15 missing, and the providers that return them; and a
  provider that returns a single bar.
\<close>

definition price_bar :: "int \<Rightarrow> pyfloat \<Rightarrow> row" where
  "price_bar t opening =
     \<lparr>timestamp = t,
      cells = [(''Open'', opening), (''High'', Fl 1), (''Low'', Fl 1), (''Close'', Fl 1)]\<rparr>"





definition single_bar_provider :: provider where
  "single_bar_provider ticker period interval = Inr [price_bar 0 (Fl 1)]"

text \<open>
  An indicator in the shape of the contract: missing on the first \<open>window - 1 + lag\<close>
  positions, the value \<open>v\<close> afterwards; it raises on a scalar. On a constant price
  the moving averages are that price (\<open>lag = 0\<close>, \<open>v = 1\<close>) and the RSI, which needs one
  more bar, is 100 (\<open>lag = 1\<close>, \<open>v = 100\<close>).
\<close>

definition warmup_indicator :: "nat \<Rightarrow> real \<Rightarrow> indicator" where
  "warmup_indicator lag v close_prices window =
     (case close_prices of
        Scalar _ \<Rightarrow> Inl ''scalar input''
      | Series xs \<Rightarrow>
          Inr (replicate (window - 1 + lag) NaN
               @ replicate (length xs - (window - 1 + lag)) (Fl v)))"

section \<open>Properties\<close>

subsection \<open>Auxiliary facts\<close>

lemma nonempty_last: "\<not> df_empty df \<Longrightarrow> iloc_last df = Inr (last df)"
  by (auto simp: df_empty_def iloc_last_def)

lemma example_frame_nonempty: "\<not> df_empty (example_frame rsi close sma)"
  by (simp add: example_frame_def df_empty_def df_columns_def)

lemma example_frame_last:
  "row_getitem (last (example_frame rsi close sma)) ''RSI'' = Inr (Fl rsi)"
  "row_getitem (last (example_frame rsi close sma)) ''Close'' = Inr (Fl close)"
  "row_getitem (last (example_frame rsi close sma)) ''SMA'' = Inr (Fl sma)"
  by (simp_all add: example_frame_def row_getitem_def)

lemma other_history_nonempty: "\<not> df_empty (other_history rsi close sma)"
  by (simp add: other_history_def df_empty_def df_columns_def)

lemma other_history_last:
  "row_getitem (last (other_history rsi close sma)) ''RSI'' = Inr (Fl rsi)"
  "row_getitem (last (other_history rsi close sma)) ''Close'' = Inr (Fl close)"
  "row_getitem (last (other_history rsi close sma)) ''SMA'' = Inr (Fl sma)"
  by (simp_all add: other_history_def row_getitem_def)

lemma example_model_simps:
  "data (example_model d) = d"
  "stop_loss_pips (example_model d) = 50"
  "pip_value (example_model d) = 10"
  "account_balance (example_model d) = 1000"
  "risk_percent (example_model d) = 1"
  "currency_pair (example_model d) = ''EURUSD''"
  by (simp_all add: example_model_def init_def)
















subsection \<open>Signal classification\<close>

text \<open>
  Claim C1. On a loaded, non-empty frame whose latest row has \<open>rsi < 30\<close> and
  \<open>close > sma\<close>, \<^verbatim>\<open>generate_signal\<close> returns the action Buy, the entry price
  \<open>close\<close>, the take profit \<open>close + stop_loss_pips * pip_value\<close> and the stop loss
  \<open>close - stop_loss_pips * pip_value\<close>, for every parameter set; the object is unchanged.
\<close>

theorem generate_signal_buy:
  assumes "data m = Some df" and "\<not> df_empty df"
    and "row_getitem (last df) ''RSI'' = Inr (Fl rsi)"
    and "row_getitem (last df) ''Close'' = Inr (Fl close)"
    and "row_getitem (last df) ''SMA'' = Inr (Fl sma)"
    and "rsi < 30" and "close > sma"
  shows "generate_signal m =
           (Inr (''Buy'', Fl close,
                 Some (Fl (close + of_int (stop_loss_pips m) * pip_value m)),
                 Some (Fl (close - of_int (stop_loss_pips m) * pip_value m))), m)"
  using assms by (simp add: generate_signal_def nonempty_last fgt_def)

text \<open>The example of the specification: \<open>rsi = 25\<close>, \<open>close = 110\<close>, \<open>sma = 100\<close>.\<close>

theorem generate_signal_buy_witness:
  "\<not> df_empty (example_frame 25 110 100)
   \<and> row_getitem (last (example_frame 25 110 100)) ''RSI'' = Inr (Fl 25)
   \<and> row_getitem (last (example_frame 25 110 100)) ''Close'' = Inr (Fl 110)
   \<and> row_getitem (last (example_frame 25 110 100)) ''SMA'' = Inr (Fl 100)
   \<and> generate_signal (example_model (Some (example_frame 25 110 100))) =
       (Inr (''Buy'', Fl 110, Some (Fl 610), Some (Fl (- 390))),
        example_model (Some (example_frame 25 110 100)))"
  using generate_signal_buy [of "example_model (Some (example_frame 25 110 100))"
      "example_frame 25 110 100" 25 110 100]
  by (simp add: example_frame_nonempty example_frame_last example_model_simps)

text \<open>
  Claim C2. On a loaded, non-empty frame whose latest row has \<open>rsi > 70\<close> and
  \<open>close < sma\<close>, \<^verbatim>\<open>generate_signal\<close> returns the action Sell, the entry price
  \<open>close\<close>, the take profit \<open>close - stop_loss_pips * pip_value\<close> and the stop loss
  \<open>close + stop_loss_pips * pip_value\<close>.
\<close>

theorem generate_signal_sell:
  assumes "data m = Some df" and "\<not> df_empty df"
    and "row_getitem (last df) ''RSI'' = Inr (Fl rsi)"
    and "row_getitem (last df) ''Close'' = Inr (Fl close)"
    and "row_getitem (last df) ''SMA'' = Inr (Fl sma)"
    and "rsi > 70" and "close < sma"
  shows "generate_signal m =
           (Inr (''Sell'', Fl close,
                 Some (Fl (close - of_int (stop_loss_pips m) * pip_value m)),
                 Some (Fl (close + of_int (stop_loss_pips m) * pip_value m))), m)"
  using assms by (simp add: generate_signal_def nonempty_last fgt_def)

text \<open>The example of the specification: \<open>rsi = 75\<close>, \<open>close = 90\<close>, \<open>sma = 100\<close>.\<close>

theorem generate_signal_sell_witness:
  "\<not> df_empty (example_frame 75 90 100)
   \<and> row_getitem (last (example_frame 75 90 100)) ''RSI'' = Inr (Fl 75)
   \<and> row_getitem (last (example_frame 75 90 100)) ''Close'' = Inr (Fl 90)
   \<and> row_getitem (last (example_frame 75 90 100)) ''SMA'' = Inr (Fl 100)
   \<and> generate_signal (example_model (Some (example_frame 75 90 100))) =
       (Inr (''Sell'', Fl 90, Some (Fl (- 410)), Some (Fl 590)),
        example_model (Some (example_frame 75 90 100)))"
  using generate_signal_sell [of "example_model (Some (example_frame 75 90 100))"
      "example_frame 75 90 100" 75 90 100]
  by (simp add: example_frame_nonempty example_frame_last example_model_simps)

text \<open>
  Claim C3. On a loaded, non-empty frame whose latest row satisfies neither the Buy
  condition nor the Sell condition, \<^verbatim>\<open>generate_signal\<close> returns the action Hold with
  take profit and stop loss absent. Both comparisons of the RSI are strict, so this is
  the branch taken when the RSI is exactly 30 or exactly 70.
\<close>

theorem generate_signal_hold:
  assumes "data m = Some df" and "\<not> df_empty df"
    and "row_getitem (last df) ''RSI'' = Inr (Fl rsi)"
    and "row_getitem (last df) ''Close'' = Inr (Fl close)"
    and "row_getitem (last df) ''SMA'' = Inr (Fl sma)"
    and "\<not> (rsi < 30 \<and> close > sma)" and "\<not> (rsi > 70 \<and> close < sma)"
  shows "generate_signal m = (Inr (''Hold'', Fl close, None, None), m)"
  using assms by (auto simp add: generate_signal_def nonempty_last fgt_def)

text \<open>
  The boundary values: an RSI of exactly 30 with the close above the average, an RSI of
  exactly 70 with the close below it, and the neutral example of the specification.
\<close>

theorem generate_signal_hold_witness:
  "generate_signal (example_model (Some (example_frame 30 110 100))) =
       (Inr (''Hold'', Fl 110, None, None), example_model (Some (example_frame 30 110 100)))
   \<and> generate_signal (example_model (Some (example_frame 70 90 100))) =
       (Inr (''Hold'', Fl 90, None, None), example_model (Some (example_frame 70 90 100)))
   \<and> generate_signal (example_model (Some (example_frame 50 100 100))) =
       (Inr (''Hold'', Fl 100, None, None), example_model (Some (example_frame 50 100 100)))"
  using generate_signal_hold [of "example_model (Some (example_frame 30 110 100))"
      "example_frame 30 110 100" 30 110 100]
    generate_signal_hold [of "example_model (Some (example_frame 70 90 100))"
      "example_frame 70 90 100" 70 90 100]
    generate_signal_hold [of "example_model (Some (example_frame 50 100 100))"
      "example_frame 50 100 100" 50 100 100]
  by (simp add: example_frame_nonempty example_frame_last example_model_simps)

text \<open>
  Claim C8. \<^verbatim>\<open>generate_signal\<close> reads only the latest row: two objects with loaded,
  non-empty frames whose latest rows agree on RSI, Close and SMA, and with the same
  parameters, get the same outcome. The earlier rows, the other columns and the
  timestamps do not matter.
\<close>

theorem generate_signal_last_row_only:
  assumes "data m1 = Some df1" and "\<not> df_empty df1"
    and "data m2 = Some df2" and "\<not> df_empty df2"
    and "row_getitem (last df1) ''RSI'' = row_getitem (last df2) ''RSI''"
    and "row_getitem (last df1) ''Close'' = row_getitem (last df2) ''Close''"
    and "row_getitem (last df1) ''SMA'' = row_getitem (last df2) ''SMA''"
    and "params m1 = params m2"
  shows "fst (generate_signal m1) = fst (generate_signal m2)"
  using assms
  by (simp add: generate_signal_def nonempty_last params_def split: sum.splits)

theorem generate_signal_last_row_only_witness:
  "example_frame 25 110 100 \<noteq> other_history 25 110 100
   \<and> last (example_frame 25 110 100) \<noteq> last (other_history 25 110 100)
   \<and> fst (generate_signal (example_model (Some (example_frame 25 110 100)))) =
     fst (generate_signal (example_model (Some (other_history 25 110 100))))"
  using generate_signal_last_row_only [of "example_model (Some (example_frame 25 110 100))"
      "example_frame 25 110 100" "example_model (Some (other_history 25 110 100))"
      "other_history 25 110 100"]
  by (simp add: example_frame_nonempty example_frame_last other_history_nonempty
      other_history_last example_model_simps params_def)
    (simp add: example_frame_def other_history_def)

text \<open>
  Claim C10. On a loaded, non-empty frame whose latest row carries RSI, Close and SMA,
  the entry price that \<^verbatim>\<open>generate_signal\<close> returns is the Close of the latest row,
  whatever the action is; with the action Hold the take profit and the stop loss are
  absent and the entry price is still returned.
\<close>

theorem entry_price_is_close:
  assumes "data m = Some df" and "\<not> df_empty df"
    and "row_getitem (last df) ''RSI'' = Inr rsi"
    and "row_getitem (last df) ''Close'' = Inr close"
    and "row_getitem (last df) ''SMA'' = Inr sma"
  shows "\<exists>action take_profit stop_loss.
           generate_signal m = (Inr (action, close, take_profit, stop_loss), m)
           \<and> action \<in> {''Buy'', ''Sell'', ''Hold''}
           \<and> (action = ''Hold'' \<longrightarrow> take_profit = None \<and> stop_loss = None)"
  using assms by (simp add: generate_signal_def nonempty_last)

theorem entry_price_is_close_witness:
  "\<exists>action take_profit stop_loss.
     generate_signal (example_model (Some (other_history 50 100 100))) =
       (Inr (action, Fl 100, take_profit, stop_loss),
        example_model (Some (other_history 50 100 100)))
     \<and> action \<in> {''Buy'', ''Sell'', ''Hold''}
     \<and> (action = ''Hold'' \<longrightarrow> take_profit = None \<and> stop_loss = None)"
  using entry_price_is_close [of "example_model (Some (other_history 50 100 100))"
      "other_history 50 100 100" "Fl 50" "Fl 100" "Fl 100"]
  by (simp only: example_model_simps other_history_nonempty other_history_last
      not_False_eq_True simp_thms)

subsection \<open>Lot size\<close>



subsection \<open>Errors\<close>

text \<open>
  Claim C5. When the provider returns an empty frame, \<^verbatim>\<open>fetch_data\<close> fails with the
  error that wraps the message of the cause, \<^verbatim>\<open>No data fetched ...\<close>. The outcome is
  the same for all three indicators, also for indicators that would raise, and the object
  is left holding the frame as the provider returned it: no indicator was consulted and
  no column attached.
\<close>

theorem fetch_data_empty:
  assumes "download (ticker_of (currency_pair m)) period interval = Inr df"
    and "df_empty df"
  shows "fetch_data download sma_indicator ema_indicator rsi_indicator interval period m =
           (Inl (ValueError (''Error fetching data: '' @ no_data_msg)), m\<lparr>data := Some df\<rparr>)"
  using assms by (simp add: fetch_data_def fetch_error_def)

theorem fetch_data_empty_witness:
  "df_empty [] \<and>
   fetch_data (\<lambda>t p i. Inr []) (\<lambda>c w. Inl ''sma'') (\<lambda>c w. Inl ''ema'') (\<lambda>c w. Inl ''rsi'')
       ''1d'' ''1mo'' (example_model None) =
     (Inl (ValueError ''Error fetching data: No data fetched. Please check the currency pair or network connection.''),
      example_model (Some []))"
  using fetch_data_empty [of "\<lambda>t p i. Inr []" "example_model None" "''1mo''" "''1d''" "[]"
      "\<lambda>c w. Inl ''sma''" "\<lambda>c w. Inl ''ema''" "\<lambda>c w. Inl ''rsi''"]
  by (simp add: df_empty_def no_data_msg_def example_model_def)



text \<open>
  A remark on a state that the statement above leaves open. A fetch that fails after the
  provider returned rows leaves the provider's frame in \<^verbatim>\<open>data\<close>: here the series
  has a single bar, \<^verbatim>\<open>squeeze\<close> turns its close prices into a scalar and the indicator
  raises. The frame is not empty, so a later \<^verbatim>\<open>generate_signal\<close> passes its guard
  and fails with the \<^verbatim>\<open>KeyError\<close> of the column that was never attached.
\<close>

lemma generate_signal_after_failed_fetch:
  "fst (fetch_data single_bar_provider (warmup_indicator 0 1) (warmup_indicator 0 1)
          (warmup_indicator 1 100) ''1d'' ''1d'' (example_model None))
     = Inl (ValueError ''Error fetching data: scalar input'')
   \<and> fst (generate_signal (snd (fetch_data single_bar_provider (warmup_indicator 0 1)
          (warmup_indicator 0 1) (warmup_indicator 1 100) ''1d'' ''1d'' (example_model None))))
     = Inl (KeyError ''RSI'')"
  by code_simp

subsection \<open>Row elimination\<close>




subsection \<open>The configuration is never assigned\<close>

text \<open>
  Claim C9. The constructor sets the five parameter fields from its arguments, and no
  method changes them: \<^verbatim>\<open>fetch_data\<close> leaves them as they were on every path,
  raising or not, and \<^verbatim>\<open>generate_signal\<close> and \<^verbatim>\<open>calculate_lot_size\<close> leave the
  whole object as it was.
\<close>

theorem parameters_unchanged:
  "params (init cp ab rp slp pv) = (cp, ab, rp, slp, pv)
   \<and> params (snd (fetch_data download sma_indicator ema_indicator rsi_indicator interval period m))
       = params m
   \<and> snd (generate_signal m) = m
   \<and> snd (calculate_lot_size m) = m"
  by (simp add: params_def init_def fetch_data_def generate_signal_def calculate_lot_size_def
      Let_def split: sum.splits option.splits)

theorem parameters_unchanged_witness:
  "params (snd (fetch_data (\<lambda>t p i. Inr []) (\<lambda>c w. Inl ''sma'') (\<lambda>c w. Inl ''ema'')
       (\<lambda>c w. Inl ''rsi'') ''1d'' ''1mo'' (init ''EURUSD'' 1000 1 50 10)))
     = (''EURUSD'', 1000, 1, 50, 10)
   \<and> params (snd (generate_signal (init ''EURUSD'' 1000 1 50 10))) = (''EURUSD'', 1000, 1, 50, 10)
   \<and> params (snd (calculate_lot_size (init ''EURUSD'' 1000 1 50 10)))
       = (''EURUSD'', 1000, 1, 50, 10)"
  using parameters_unchanged [of "''EURUSD''" 1000 1 50 10 "\<lambda>t p i. Inr []"
      "\<lambda>c w. Inl ''sma''" "\<lambda>c w. Inl ''ema''" "\<lambda>c w. Inl ''rsi''" "''1d''" "''1mo''"
      "init ''EURUSD'' 1000 1 50 10"]
  by simp

end
